theory Spec2Isabelle
  imports Complex_Main
begin

section \<open>Vectors and scalar helpers\<close>

text \<open>
  The primitives of \<^verbatim>\<open>taichi_three/objects.py\<close> compute on Taichi floats and on
  \<^verbatim>\<open>taichi_glsl\<close> vectors. Floats are idealised as \<^typ>\<open>real\<close>: every comparison and
  branch of the source is kept, rounding is not modelled. A 2-vector is a pair, a 3-vector a
  triple; the suffix of an operation is its dimension. Division is HOL's, so a quotient by
  zero is \<open>0\<close> where the source produces an IEEE infinity or NaN; this only arises for
  degenerate primitives (a zero-length edge, a zero vector to normalise).
\<close>

type_synonym vec2 = "real \<times> real"
type_synonym vec3 = "real \<times> real \<times> real"
type_synonym ivec2 = "int \<times> int"

fun vec3 :: "real \<Rightarrow> vec3" where
  "vec3 x = (x, x, x)"

fun sub3 :: "vec3 \<Rightarrow> vec3 \<Rightarrow> vec3" where
  "sub3 (x1, y1, z1) (x2, y2, z2) = (x1 - x2, y1 - y2, z1 - z2)"

fun add3 :: "vec3 \<Rightarrow> vec3 \<Rightarrow> vec3" where
  "add3 (x1, y1, z1) (x2, y2, z2) = (x1 + x2, y1 + y2, z1 + z2)"

fun scale3 :: "vec3 \<Rightarrow> real \<Rightarrow> vec3" where
  "scale3 (x, y, z) k = (x * k, y * k, z * k)"

fun dot3 :: "vec3 \<Rightarrow> vec3 \<Rightarrow> real" where
  "dot3 (x1, y1, z1) (x2, y2, z2) = x1 * x2 + y1 * y2 + z1 * z2"

fun cross3 :: "vec3 \<Rightarrow> vec3 \<Rightarrow> vec3" where
  "cross3 (x1, y1, z1) (x2, y2, z2) =
     (y1 * z2 - z1 * y2, z1 * x2 - x1 * z2, x1 * y2 - y1 * x2)"

definition norm_sqr3 :: "vec3 \<Rightarrow> real" where
  "norm_sqr3 v = dot3 v v"

definition length3 :: "vec3 \<Rightarrow> real" where
  "length3 v = sqrt (norm_sqr3 v)"

definition distance3 :: "vec3 \<Rightarrow> vec3 \<Rightarrow> real" where
  "distance3 p q = length3 (sub3 p q)"

definition normalize3 :: "vec3 \<Rightarrow> vec3" where
  "normalize3 v = scale3 v (1 / length3 v)"

fun min3 :: "vec3 \<Rightarrow> vec3 \<Rightarrow> vec3" where
  "min3 (x1, y1, z1) (x2, y2, z2) = (min x1 x2, min y1 y2, min z1 z2)"

fun max3 :: "vec3 \<Rightarrow> vec3 \<Rightarrow> vec3" where
  "max3 (x1, y1, z1) (x2, y2, z2) = (max x1 x2, max y1 y2, max z1 z2)"

fun sub2 :: "vec2 \<Rightarrow> vec2 \<Rightarrow> vec2" where
  "sub2 (x1, y1) (x2, y2) = (x1 - x2, y1 - y2)"

fun scale2 :: "vec2 \<Rightarrow> real \<Rightarrow> vec2" where
  "scale2 (x, y) k = (x * k, y * k)"

fun dot2 :: "vec2 \<Rightarrow> vec2 \<Rightarrow> real" where
  "dot2 (x1, y1) (x2, y2) = x1 * x2 + y1 * y2"

fun cross2 :: "vec2 \<Rightarrow> vec2 \<Rightarrow> real" where
  "cross2 (x1, y1) (x2, y2) = x1 * y2 - y1 * x2"

definition norm_sqr2 :: "vec2 \<Rightarrow> real" where
  "norm_sqr2 v = dot2 v v"

definition length2 :: "vec2 \<Rightarrow> real" where
  "length2 v = sqrt (norm_sqr2 v)"

fun min2 :: "vec2 \<Rightarrow> vec2 \<Rightarrow> vec2" where
  "min2 (x1, y1) (x2, y2) = (min x1 x2, min y1 y2)"

fun max2 :: "vec2 \<Rightarrow> vec2 \<Rightarrow> vec2" where
  "max2 (x1, y1) (x2, y2) = (max x1 x2, max y1 y2)"

fun floor2 :: "vec2 \<Rightarrow> ivec2" where
  "floor2 (x, y) = (\<lfloor>x\<rfloor>, \<lfloor>y\<rfloor>)"

fun ceil2 :: "vec2 \<Rightarrow> ivec2" where
  "ceil2 (x, y) = (\<lceil>x\<rceil>, \<lceil>y\<rceil>)"

fun real2 :: "ivec2 \<Rightarrow> vec2" where
  "real2 (i, j) = (real_of_int i, real_of_int j)"

text \<open>
  \<^verbatim>\<open>ts.clamp(x)\<close> and \<^verbatim>\<open>ts.smoothstep(x, a, b)\<close> of \<^verbatim>\<open>taichi_glsl\<close>: the cubic
  Hermite step of the clamped ratio \<open>(x - a) / (b - a)\<close>.
\<close>

definition clamp :: "real \<Rightarrow> real" where
  "clamp x = min 1 (max 0 x)"

definition smoothstep :: "real \<Rightarrow> real \<Rightarrow> real \<Rightarrow> real" where
  "smoothstep x a b = (let t = clamp ((x - a) / (b - a)) in t * t * (3 - 2 * t))"

section \<open>Ray-testable objects: \<^verbatim>\<open>ObjectRT\<close> and \<^verbatim>\<open>Ball\<close>\<close>

text \<open>
  The class \<^verbatim>\<open>Ball\<close> is used twice by the source: as a batch, whose \<^verbatim>\<open>pos\<close> and
  \<^verbatim>\<open>radius\<close> are Taichi fields, and as the single instance \<^verbatim>\<open>make_one(I)\<close> builds from
  the entries at index \<open>I\<close>. A field is a list in the iteration order of
  \<^verbatim>\<open>ti.grouped(ti.ndrange(*self.pos.shape()))\<close>, so an index is a position of that list.
  The constants \<^verbatim>\<open>EPS\<close> and \<^verbatim>\<open>INF\<close> come from the module \<^verbatim>\<open>common\<close>; they are
  parameters of every function that reads them.
\<close>

record Ball =
  pos :: vec3
  radius :: real

record Ball_batch =
  pos_field :: "vec3 list"
  radius_field :: "real list"

definition Ball_make_one :: "Ball_batch \<Rightarrow> nat \<Rightarrow> Ball" where
  "Ball_make_one self I = \<lparr>pos = pos_field self ! I, radius = radius_field self ! I\<rparr>"

definition Ball_do_calc_sdf :: "Ball \<Rightarrow> vec3 \<Rightarrow> real" where
  "Ball_do_calc_sdf self p = distance3 (pos self) p - radius self"

definition Ball_do_intersect :: "real \<Rightarrow> real \<Rightarrow> Ball \<Rightarrow> vec3 \<Rightarrow> vec3 \<Rightarrow> real \<times> vec3" where
  "Ball_do_intersect EPS INF' self orig dir =
     (let op = sub3 (pos self) orig;
          b = dot3 op dir;
          det = b\<^sup>2 - norm_sqr3 op + (radius self)\<^sup>2;
          ret = (if det > 0 then
                   (let det = sqrt det;
                        t = b - det
                    in if t > EPS then t
                       else (let t = b + det in if t > EPS then t else INF'))
                 else INF')
      in (ret, normalize3 (sub3 (scale3 dir ret) op)))"

definition indices :: "Ball_batch \<Rightarrow> nat list" where
  "indices self = [0..<length (pos_field self)]"

definition calc_sdf :: "real \<Rightarrow> Ball_batch \<Rightarrow> vec3 \<Rightarrow> real" where
  "calc_sdf INF' self p =
     fold (\<lambda>I ret. min ret (Ball_do_calc_sdf (Ball_make_one self I) p)) (indices self) INF'"

definition intersect_step ::
  "real \<Rightarrow> real \<Rightarrow> Ball_batch \<Rightarrow> vec3 \<Rightarrow> vec3 \<Rightarrow> nat \<Rightarrow> real \<times> vec3 \<Rightarrow> real \<times> vec3" where
  "intersect_step EPS INF' self orig dir I acc =
     (let (ret, normal) = acc;
          (t, n) = Ball_do_intersect EPS INF' (Ball_make_one self I) orig dir
      in if t < ret then (t, n) else (ret, normal))"

definition intersect :: "real \<Rightarrow> real \<Rightarrow> Ball_batch \<Rightarrow> vec3 \<Rightarrow> vec3 \<Rightarrow> real \<times> vec3" where
  "intersect EPS INF' self orig dir =
     fold (intersect_step EPS INF' self orig dir) (indices self) (INF', vec3 0)"

section \<open>Screen-space objects: \<^verbatim>\<open>ObjectGE\<close>, \<^verbatim>\<open>Line\<close> and \<^verbatim>\<open>Triangle\<close>\<close>

text \<open>
  The scene is the collaborator the renderers draw into. Its camera transforms, its
  projection \<^verbatim>\<open>uncook_coor\<close>, its light direction and its shading functions are fields
  of the record, read but never changed by this layer; \<^verbatim>\<open>scene.img\<close> is the image, a
  function from integer pixel coordinates to colours, and the only part that is written.
  The resolution of the image is not part of this layer, so every integer coordinate is a
  pixel. A renderer takes the scene and returns it with the image updated;
  \<^verbatim>\<open>ti.atomic_min\<close> and \<^verbatim>\<open>ti.atomic_max\<close> on a pixel are the per-channel minimum and
  maximum with its old value.
\<close>

record camera =
  untrans_pos :: "vec3 \<Rightarrow> vec3"
  untrans_dir :: "vec3 \<Rightarrow> vec3"

record opt =
  render_func :: "vec3 \<Rightarrow> vec3 \<Rightarrow> vec3 \<Rightarrow> vec3 \<Rightarrow> vec3"
  pre_process :: "vec3 \<Rightarrow> vec3"

record scene =
  camera :: camera
  opt :: opt
  light_dir :: vec3
  uncook_coor :: "vec3 \<Rightarrow> vec2"
  img :: "ivec2 \<Rightarrow> vec3"

text \<open>
  \<^verbatim>\<open>ti.grouped(ti.ndrange((M.x, N.x), (M.y, N.y)))\<close>: the pixels of the half-open box,
  the first coordinate outermost.
\<close>

definition ndrange2 :: "int \<times> int \<Rightarrow> int \<times> int \<Rightarrow> ivec2 list" where
  "ndrange2 xr yr =
     concat (map (\<lambda>x. map (\<lambda>y. (x, y)) [fst yr..snd yr - 1]) [fst xr..snd xr - 1])"

text \<open>A vector minus or plus a scalar acts on every component.\<close>

fun sub2s :: "vec2 \<Rightarrow> real \<Rightarrow> vec2" where
  "sub2s (x, y) k = (x - k, y - k)"

fun add2s :: "vec2 \<Rightarrow> real \<Rightarrow> vec2" where
  "add2s (x, y) k = (x + k, y + k)"

record Line =
  Line_a :: vec3
  Line_b :: vec3

record Line_batch =
  Line_a_field :: "vec3 list"
  Line_b_field :: "vec3 list"

definition Line_make_one :: "Line_batch \<Rightarrow> nat \<Rightarrow> Line" where
  "Line_make_one self I = \<lparr>Line_a = Line_a_field self ! I, Line_b = Line_b_field self ! I\<rparr>"

text \<open>
  The distance value of one pixel in \<^verbatim>\<open>Line.do_render\<close> (lines 105 to 112), from the
  projected end points \<open>A\<close>, \<open>B\<close> and the pixel \<open>X\<close>: the operations and the order of the
  two tests are the source's, the numbers are reals. The source evaluates them in single
  precision, so the number it obtains can differ from this one: the differences
  \<^verbatim>\<open>B.norm_sqr() - AoB\<close> and \<^verbatim>\<open>AoB - A.norm_sqr()\<close> cancel large terms, and at screen
  coordinates in the thousands a rounded difference can send a pixel into another branch.
  For \<open>A = B\<close> the quotient of the source is \<open>0 / 0\<close>, not a number, and both later tests
  fail; here it is \<open>0\<close>. What is proved below about line rendering is the rule of the pixel
  loop in terms of this value, and facts that do not depend on which value it is beyond
  its sign; nothing is proved about how close the value is to a geometric distance.
\<close>

definition Line_udf :: "vec2 \<Rightarrow> vec2 \<Rightarrow> vec2 \<Rightarrow> real" where
  "Line_udf A B X =
     (let P = sub2 B A;
          udf = (cross2 X P + cross2 B A)\<^sup>2 / norm_sqr2 P;
          XoP = dot2 X P;
          AoB = dot2 A B
      in if XoP > norm_sqr2 B - AoB then norm_sqr2 (sub2 B X)
         else if XoP < AoB - norm_sqr2 A then norm_sqr2 (sub2 A X)
         else udf)"

text \<open>The body of the pixel loop of \<^verbatim>\<open>Line.do_render\<close>.\<close>

definition Line_pixel :: "vec2 \<Rightarrow> vec2 \<Rightarrow> real \<Rightarrow> ivec2 \<Rightarrow> scene \<Rightarrow> scene" where
  "Line_pixel A B W X scene =
     (let udf = Line_udf A B (real2 X)
      in if udf < 0 then scene\<lparr>img := (img scene)(X := vec3 1)\<rparr>
         else if udf < W\<^sup>2 then
           (let t = smoothstep udf 0 (W\<^sup>2)
            in scene\<lparr>img := (img scene)(X := min3 (img scene X) (vec3 t))\<rparr>)
         else scene)"

definition Line_do_render :: "Line \<Rightarrow> scene \<Rightarrow> scene" where
  "Line_do_render self scene =
     (let W = 1;
          A = uncook_coor scene (untrans_pos (camera scene) (Line_a self));
          B = uncook_coor scene (untrans_pos (camera scene) (Line_b self));
          M = floor2 (sub2s (min2 A B) W);
          N = ceil2 (add2s (max2 A B) W)
      in fold (Line_pixel A B W) (ndrange2 (fst M, fst N) (snd M, snd N)) scene)"

definition Line_render :: "Line_batch \<Rightarrow> scene \<Rightarrow> scene" where
  "Line_render self scene =
     fold (\<lambda>I. Line_do_render (Line_make_one self I)) [0..<length (Line_a_field self)] scene"

record Triangle =
  Triangle_a :: vec3
  Triangle_b :: vec3
  Triangle_c :: vec3

record Triangle_batch =
  Triangle_a_field :: "vec3 list"
  Triangle_b_field :: "vec3 list"
  Triangle_c_field :: "vec3 list"

definition Triangle_make_one :: "Triangle_batch \<Rightarrow> nat \<Rightarrow> Triangle" where
  "Triangle_make_one self I =
     \<lparr>Triangle_a = Triangle_a_field self ! I, Triangle_b = Triangle_b_field self ! I,
      Triangle_c = Triangle_c_field self ! I\<rparr>"

definition to_lines :: "Triangle \<Rightarrow> Line \<times> Line \<times> Line" where
  "to_lines self =
     (\<lparr>Line_a = Triangle_b self, Line_b = Triangle_c self\<rparr>,
      \<lparr>Line_a = Triangle_c self, Line_b = Triangle_a self\<rparr>,
      \<lparr>Line_a = Triangle_a self, Line_b = Triangle_b self\<rparr>)"

definition Triangle_do_render_stroke :: "Triangle \<Rightarrow> scene \<Rightarrow> scene" where
  "Triangle_do_render_stroke self scene =
     (let (A, B, C) = to_lines self
      in Line_do_render C (Line_do_render B (Line_do_render A scene)))"

text \<open>
  The value \<open>udf\<close> of one pixel in \<^verbatim>\<open>Triangle.do_render\<close>: the edge vectors and the
  offsets of lines 149 to 160, which the source computes once before the pixel loop, and
  the three edge functions and their maximum of lines 171 to 174. The reciprocal lengths
  divide by zero for a triangle with two equal corners on screen; the callers of this layer
  are to pass triangles with three distinct projected corners.
\<close>

definition Triangle_udf :: "vec2 \<Rightarrow> vec2 \<Rightarrow> vec2 \<Rightarrow> vec2 \<Rightarrow> real" where
  "Triangle_udf A B C X =
     (let B_A = sub2 B A;
          C_B = sub2 C B;
          A_C = sub2 A C;
          ilB_A = 1 / length2 B_A;
          ilC_B = 1 / length2 C_B;
          ilA_C = 1 / length2 A_C;
          B_A = scale2 B_A ilB_A;
          C_B = scale2 C_B ilC_B;
          A_C = scale2 A_C ilA_C;
          BxA = cross2 B A * ilB_A;
          CxB = cross2 C B * ilC_B;
          AxC = cross2 A C * ilA_C;
          AB = cross2 X B_A + BxA;
          BC = cross2 X C_B + CxB;
          CA = cross2 X A_C + AxC
      in max (max AB BC) CA)"

text \<open>The flat colour of a triangle (lines 161 to 166), from its camera-space corners.\<close>

definition Triangle_color :: "scene \<Rightarrow> vec3 \<Rightarrow> vec3 \<Rightarrow> vec3 \<Rightarrow> vec3" where
  "Triangle_color scene a b c =
     (let normal = normalize3 (cross3 (sub3 a c) (sub3 a b));
          light_dir = untrans_dir (camera scene) (light_dir scene);
          pos = scale3 (add3 (add3 a b) c) (1 / 3);
          dir = vec3 0;
          color = render_func (opt scene) pos normal dir light_dir
      in pre_process (opt scene) color)"

text \<open>The body of the pixel loop of \<^verbatim>\<open>Triangle.do_render\<close>.\<close>

definition Triangle_pixel :: "vec2 \<Rightarrow> vec2 \<Rightarrow> vec2 \<Rightarrow> vec3 \<Rightarrow> real \<Rightarrow> ivec2 \<Rightarrow> scene \<Rightarrow> scene" where
  "Triangle_pixel A B C color W X scene =
     (let udf = Triangle_udf A B C (real2 X)
      in if udf < 0 then scene\<lparr>img := (img scene)(X := color)\<rparr>
         else if udf < W then
           (let t = smoothstep udf W 0
            in scene\<lparr>img := (img scene)(X := max3 (img scene X) (scale3 color t))\<rparr>)
         else scene)"

definition Triangle_do_render :: "Triangle \<Rightarrow> scene \<Rightarrow> scene" where
  "Triangle_do_render self scene =
     (let a = untrans_pos (camera scene) (Triangle_a self);
          b = untrans_pos (camera scene) (Triangle_b self);
          c = untrans_pos (camera scene) (Triangle_c self);
          A = uncook_coor scene a;
          B = uncook_coor scene b;
          C = uncook_coor scene c;
          color = Triangle_color scene a b c;
          W = 0.4;
          M = floor2 (sub2s (min2 (min2 A B) C) W);
          N = ceil2 (add2s (max2 (max2 A B) C) W)
      in fold (Triangle_pixel A B C color W) (ndrange2 (fst M, fst N) (snd M, snd N)) scene)"

definition Triangle_render :: "Triangle_batch \<Rightarrow> scene \<Rightarrow> scene" where
  "Triangle_render self scene =
     fold (\<lambda>I. Triangle_do_render (Triangle_make_one self I))
       [0..<length (Triangle_a_field self)] scene"

definition Triangle_render_stroke :: "Triangle_batch \<Rightarrow> scene \<Rightarrow> scene" where
  "Triangle_render_stroke self scene =
     fold (\<lambda>I. Triangle_do_render_stroke (Triangle_make_one self I))
       [0..<length (Triangle_a_field self)] scene"

section \<open>Derived notions and sample inputs\<close>

text \<open>
  The root that \<^verbatim>\<open>Ball.do_intersect\<close> accepts, if any: the branch conditions of lines
  57 to 65 without the sentinel, so that a miss is \<open>None\<close> whatever \<^verbatim>\<open>INF\<close> is.
\<close>

definition accepted_root :: "real \<Rightarrow> Ball \<Rightarrow> vec3 \<Rightarrow> vec3 \<Rightarrow> real option" where
  "accepted_root EPS self orig dir =
     (let op = sub3 (pos self) orig;
          b = dot3 op dir;
          det = b\<^sup>2 - norm_sqr3 op + (radius self)\<^sup>2
      in if det \<le> 0 then None
         else if b - sqrt det > EPS then Some (b - sqrt det)
         else if b + sqrt det > EPS then Some (b + sqrt det)
         else None)"

text \<open>
  Batches used as concrete inputs: one unit ball 2000 units down the x axis, and two balls
  in front of the origin, in both orders.
\<close>

definition far_ball :: Ball_batch where
  "far_ball = \<lparr>pos_field = [(2000, 0, 0)], radius_field = [1]\<rparr>"

definition two_balls :: Ball_batch where
  "two_balls = \<lparr>pos_field = [(0, 0, 5), (0, 12, 16)], radius_field = [1, 13]\<rparr>"


text \<open>
  The value a pixel holds after the loop body of \<^verbatim>\<open>Line.do_render\<close> ran on it, as a
  function of the value \<open>v\<close> it held before, and the same for the whole scan of one line:
  a pixel outside the scanned box keeps its value.
\<close>

definition Line_write :: "vec2 \<Rightarrow> vec2 \<Rightarrow> real \<Rightarrow> ivec2 \<Rightarrow> vec3 \<Rightarrow> vec3" where
  "Line_write A B W X v =
     (let udf = Line_udf A B (real2 X)
      in if udf < 0 then vec3 1
         else if udf < W\<^sup>2 then min3 v (vec3 (smoothstep udf 0 (W\<^sup>2)))
         else v)"

definition Line_result :: "Line \<Rightarrow> scene \<Rightarrow> ivec2 \<Rightarrow> vec3 \<Rightarrow> vec3" where
  "Line_result self scene X v =
     (let W = 1;
          A = uncook_coor scene (untrans_pos (camera scene) (Line_a self));
          B = uncook_coor scene (untrans_pos (camera scene) (Line_b self));
          M = floor2 (sub2s (min2 A B) W);
          N = ceil2 (add2s (max2 A B) W)
      in if X \<in> set (ndrange2 (fst M, fst N) (snd M, snd N)) then Line_write A B W X v else v)"

text \<open>
  One signed edge function of \<^verbatim>\<open>Triangle.do_render\<close>: for the edge from \<open>P\<close> to \<open>Q\<close>, the
  cross product of the pixel with the normalised edge vector plus the normalised offset,
  as the source computes \<^verbatim>\<open>AB\<close>, \<^verbatim>\<open>BC\<close> and \<^verbatim>\<open>CA\<close>. Then the value a pixel holds after
  the loop body of \<^verbatim>\<open>Triangle.do_render\<close>, the same for the whole scan of one triangle,
  and the pixels a triangle overwrites: those it scans with \<open>udf < 0\<close>.
\<close>

definition edge_fn :: "vec2 \<Rightarrow> vec2 \<Rightarrow> vec2 \<Rightarrow> real" where
  "edge_fn P Q X =
     (let Q_P = sub2 Q P;
          ilQ_P = 1 / length2 Q_P
      in cross2 X (scale2 Q_P ilQ_P) + cross2 Q P * ilQ_P)"

definition Triangle_write :: "vec2 \<Rightarrow> vec2 \<Rightarrow> vec2 \<Rightarrow> vec3 \<Rightarrow> real \<Rightarrow> ivec2 \<Rightarrow> vec3 \<Rightarrow> vec3" where
  "Triangle_write A B C color W X v =
     (let udf = Triangle_udf A B C (real2 X)
      in if udf < 0 then color
         else if udf < W then max3 v (scale3 color (smoothstep udf W 0))
         else v)"

definition Triangle_result :: "Triangle \<Rightarrow> scene \<Rightarrow> ivec2 \<Rightarrow> vec3 \<Rightarrow> vec3" where
  "Triangle_result self scene X v =
     (let a = untrans_pos (camera scene) (Triangle_a self);
          b = untrans_pos (camera scene) (Triangle_b self);
          c = untrans_pos (camera scene) (Triangle_c self);
          A = uncook_coor scene a;
          B = uncook_coor scene b;
          C = uncook_coor scene c;
          color = Triangle_color scene a b c;
          W = 0.4;
          M = floor2 (sub2s (min2 (min2 A B) C) W);
          N = ceil2 (add2s (max2 (max2 A B) C) W)
      in if X \<in> set (ndrange2 (fst M, fst N) (snd M, snd N))
         then Triangle_write A B C color W X v else v)"

definition Triangle_fills :: "Triangle \<Rightarrow> scene \<Rightarrow> ivec2 \<Rightarrow> bool" where
  "Triangle_fills self scene X =
     (let A = uncook_coor scene (untrans_pos (camera scene) (Triangle_a self));
          B = uncook_coor scene (untrans_pos (camera scene) (Triangle_b self));
          C = uncook_coor scene (untrans_pos (camera scene) (Triangle_c self));
          W = 0.4;
          M = floor2 (sub2s (min2 (min2 A B) C) W);
          N = ceil2 (add2s (max2 (max2 A B) C) W)
      in X \<in> set (ndrange2 (fst M, fst N) (snd M, snd N)) \<and> Triangle_udf A B C (real2 X) < 0)"

text \<open>
  A scene and two triangles used as concrete inputs. The camera is the identity, the
  projection drops the depth, the shading colour is \<open>(1, z, 0)\<close> for a centroid of depth
  \<open>z\<close>, and the image is black. Both triangles project to \<open>(0, 0)\<close>, \<open>(10, 0)\<close>, \<open>(0, 10)\<close>,
  one at depth 0 and one at depth 1.
\<close>

definition flat_scene :: scene where
  "flat_scene =
     \<lparr>camera = \<lparr>untrans_pos = (\<lambda>v. v), untrans_dir = (\<lambda>v. v)\<rparr>,
      opt = \<lparr>render_func = (\<lambda>pos normal dir light. (1, snd (snd pos), 0)),
             pre_process = (\<lambda>color. color)\<rparr>,
      light_dir = (0, 0, 1),
      uncook_coor = (\<lambda>(x, y, z). (x, y)),
      img = (\<lambda>X. (0, 0, 0))\<rparr>"

definition tri_near :: Triangle where
  "tri_near = \<lparr>Triangle_a = (0, 0, 0), Triangle_b = (10, 0, 0), Triangle_c = (0, 10, 0)\<rparr>"

definition tri_far :: Triangle where
  "tri_far = \<lparr>Triangle_a = (0, 0, 1), Triangle_b = (10, 0, 1), Triangle_c = (0, 10, 1)\<rparr>"

section \<open>Properties of the ray-testable objects\<close>

lemma fold_min_Min:
  "fold (\<lambda>I ret. min ret (f I)) xs (a::real) = Min (insert a (f ` set xs))"
proof (induction xs arbitrary: a)
  case Nil
  show ?case by simp
next
  case (Cons x xs)
  have "Min (insert (min a (f x)) (f ` set xs)) = Min (insert a (insert (f x) (f ` set xs)))"
    by (cases "f ` set xs = {}") (simp_all add: min.assoc)
  with Cons show ?case by simp
qed

lemma calc_sdf_Min:
  "calc_sdf INF' self p =
     Min (insert INF' ((\<lambda>I. Ball_do_calc_sdf (Ball_make_one self I) p) ` {..<length (pos_field self)}))"
  by (simp add: calc_sdf_def indices_def fold_min_Min lessThan_atLeast0)

lemma do_intersect_fst:
  "fst (Ball_do_intersect EPS INF' self orig dir) =
     (case accepted_root EPS self orig dir of Some t \<Rightarrow> t | None \<Rightarrow> INF')"
  by (simp add: Ball_do_intersect_def accepted_root_def Let_def not_less)

lemma intersect_step_eq:
  "intersect_step EPS INF' self orig dir I acc =
     (if fst (Ball_do_intersect EPS INF' (Ball_make_one self I) orig dir) < fst acc
      then Ball_do_intersect EPS INF' (Ball_make_one self I) orig dir else acc)"
  by (simp add: intersect_step_def split: prod.splits)

lemma fold_first_min:
  fixes f :: "nat \<Rightarrow> real \<times> 'a"
  shows "(fold (\<lambda>I acc. if fst (f I) < fst acc then f I else acc) [0..<n] (a, z) = (a, z)
           \<and> (\<forall>I<n. \<not> fst (f I) < a))
       \<or> (\<exists>J<n. fold (\<lambda>I acc. if fst (f I) < fst acc then f I else acc) [0..<n] (a, z) = f J
              \<and> fst (f J) < a \<and> (\<forall>K<n. fst (f J) \<le> fst (f K)) \<and> (\<forall>K<J. fst (f J) < fst (f K)))"
proof (induction n)
  case 0
  show ?case by simp
next
  case (Suc n)
  let ?g = "\<lambda>m. fold (\<lambda>I acc. if fst (f I) < fst acc then f I else acc) [0..<m] (a, z)"
  have step: "?g (Suc n) = (if fst (f n) < fst (?g n) then f n else ?g n)" by simp
  from Suc consider
      (miss) "?g n = (a, z)" "\<forall>I<n. \<not> fst (f I) < a"
    | (hit) J where "J < n" "?g n = f J" "fst (f J) < a" "\<forall>K<n. fst (f J) \<le> fst (f K)"
        "\<forall>K<J. fst (f J) < fst (f K)"
    by blast
  then show ?case
  proof cases
    case miss
    show ?thesis
    proof (cases "fst (f n) < a")
      case True
      with miss step have "?g (Suc n) = f n" by simp
      moreover from miss True have "\<forall>K<Suc n. fst (f n) \<le> fst (f K)"
        by (auto simp: less_Suc_eq)
      moreover from miss True have "\<forall>K<n. fst (f n) < fst (f K)"
        by (auto simp: not_less)
      ultimately show ?thesis using True by blast
    next
      case False
      with miss step have "?g (Suc n) = (a, z)" by simp
      moreover from miss False have "\<forall>I<Suc n. \<not> fst (f I) < a"
        by (auto simp: less_Suc_eq)
      ultimately show ?thesis by blast
    qed
  next
    case hit
    show ?thesis
    proof (cases "fst (f n) < fst (f J)")
      case True
      with hit step have "?g (Suc n) = f n" by simp
      moreover from hit True have "fst (f n) < a" by simp
      moreover from hit True have "\<forall>K<Suc n. fst (f n) \<le> fst (f K)"
        by (force simp: less_Suc_eq)
      moreover from hit True have "\<forall>K<n. fst (f n) < fst (f K)"
        by force
      ultimately show ?thesis by blast
    next
      case False
      with hit step have "?g (Suc n) = f J" by simp
      moreover from hit False have "\<forall>K<Suc n. fst (f J) \<le> fst (f K)"
        by (auto simp: less_Suc_eq)
      ultimately show ?thesis using hit by (meson less_Suc_eq)
    qed
  qed
qed

lemma intersect_cases:
  "(intersect EPS INF' self orig dir = (INF', vec3 0)
      \<and> (\<forall>I<length (pos_field self).
            \<not> fst (Ball_do_intersect EPS INF' (Ball_make_one self I) orig dir) < INF'))
   \<or> (\<exists>J<length (pos_field self).
        intersect EPS INF' self orig dir = Ball_do_intersect EPS INF' (Ball_make_one self J) orig dir
        \<and> fst (Ball_do_intersect EPS INF' (Ball_make_one self J) orig dir) < INF'
        \<and> (\<forall>K<length (pos_field self).
              fst (Ball_do_intersect EPS INF' (Ball_make_one self J) orig dir)
                \<le> fst (Ball_do_intersect EPS INF' (Ball_make_one self K) orig dir))
        \<and> (\<forall>K<J. fst (Ball_do_intersect EPS INF' (Ball_make_one self J) orig dir)
                < fst (Ball_do_intersect EPS INF' (Ball_make_one self K) orig dir)))"
proof -
  have "intersect_step EPS INF' self orig dir =
          (\<lambda>I acc. if fst (Ball_do_intersect EPS INF' (Ball_make_one self I) orig dir) < fst acc
             then Ball_do_intersect EPS INF' (Ball_make_one self I) orig dir else acc)"
    by (intro ext) (rule intersect_step_eq)
  then have "intersect EPS INF' self orig dir =
     fold (\<lambda>I acc. if fst (Ball_do_intersect EPS INF' (Ball_make_one self I) orig dir) < fst acc
             then Ball_do_intersect EPS INF' (Ball_make_one self I) orig dir else acc)
       [0..<length (pos_field self)] (INF', vec3 0)"
    by (simp add: intersect_def indices_def)
  then show ?thesis
    using fold_first_min [of "\<lambda>I. Ball_do_intersect EPS INF' (Ball_make_one self I) orig dir"
        "length (pos_field self)" INF' "vec3 0"]
    by simp
qed


lemmas vec_defs = norm_sqr3_def length3_def distance3_def normalize3_def

lemma far_ball_sdf: "Ball_do_calc_sdf (Ball_make_one far_ball 0) (0, 0, 0) = 1999"
  by (simp add: far_ball_def Ball_make_one_def Ball_do_calc_sdf_def vec_defs)

lemma far_ball_calc_sdf: "calc_sdf 1000 far_ball (0, 0, 0) = 1000"
  by (simp add: calc_sdf_def indices_def far_ball_def Ball_make_one_def Ball_do_calc_sdf_def vec_defs)

text \<open>
  Whatever real value \<^verbatim>\<open>INF\<close> has, a ball far enough away has a signed distance above
  it, and \<^verbatim>\<open>calc_sdf\<close> answers \<^verbatim>\<open>INF\<close>.
\<close>

lemma calc_sdf_cap_any_INF:
  "calc_sdf INF' \<lparr>pos_field = [(\<bar>INF'\<bar> + 2, 0, 0)], radius_field = [1]\<rparr> (0, 0, 0) = INF'"
  "Ball_do_calc_sdf (Ball_make_one \<lparr>pos_field = [(\<bar>INF'\<bar> + 2, 0, 0)], radius_field = [1]\<rparr> 0) (0, 0, 0)
     = \<bar>INF'\<bar> + 1"
  by (simp_all add: calc_sdf_def indices_def Ball_make_one_def Ball_do_calc_sdf_def vec_defs)

text \<open>
  C1, as stated, fails: with \<^verbatim>\<open>INF = 1000\<close> and a single unit ball centred 2000 units from
  the query point, the only instance distance is 1999, but the running minimum starts at
  \<^verbatim>\<open>INF\<close> and \<^verbatim>\<open>calc_sdf\<close> returns 1000.
\<close>

theorem calc_sdf_far_ball_counterexample:
  "calc_sdf 1000 far_ball (0, 0, 0)
     \<noteq> Min ((\<lambda>I. Ball_do_calc_sdf (Ball_make_one far_ball I) (0, 0, 0)) ` {..<length (pos_field far_ball)})"
proof -
  have "{..<length (pos_field far_ball)} = {0}" by (auto simp: far_ball_def)
  then show ?thesis by (simp add: far_ball_sdf far_ball_calc_sdf)
qed

text \<open>
  C1, amended: for every batch of balls and every point \<open>p\<close>, \<^verbatim>\<open>calc_sdf(p)\<close> is the
  minimum of \<^verbatim>\<open>INF\<close> and the instance signed distances \<open>|pos_i - p| - radius_i\<close>; it is
  the minimum over the instances whenever some instance distance is at most \<^verbatim>\<open>INF\<close>. The
  instance distance is negative exactly when \<open>p\<close> is inside the sphere.
\<close>

theorem calc_sdf_capped_minimum:
  "calc_sdf INF' self p =
     Min (insert INF' ((\<lambda>I. Ball_do_calc_sdf (Ball_make_one self I) p) ` {..<length (pos_field self)}))
   \<and> ((\<exists>I<length (pos_field self). Ball_do_calc_sdf (Ball_make_one self I) p \<le> INF') \<longrightarrow>
        calc_sdf INF' self p =
          Min ((\<lambda>I. Ball_do_calc_sdf (Ball_make_one self I) p) ` {..<length (pos_field self)}))
   \<and> Ball_do_calc_sdf b p = sqrt (norm_sqr3 (sub3 (pos b) p)) - radius b
   \<and> (Ball_do_calc_sdf b p < 0 \<longleftrightarrow> sqrt (norm_sqr3 (sub3 (pos b) p)) < radius b)"
proof -
  let ?S = "(\<lambda>I. Ball_do_calc_sdf (Ball_make_one self I) p) ` {..<length (pos_field self)}"
  have cap: "calc_sdf INF' self p = Min (insert INF' ?S)" by (rule calc_sdf_Min)
  have "calc_sdf INF' self p = Min ?S"
    if "\<exists>I<length (pos_field self). Ball_do_calc_sdf (Ball_make_one self I) p \<le> INF'"
  proof -
    from that obtain I where I: "I < length (pos_field self)"
      "Ball_do_calc_sdf (Ball_make_one self I) p \<le> INF'" by blast
    then have ne: "?S \<noteq> {}" and fin: "finite ?S" by auto
    from I have "Ball_do_calc_sdf (Ball_make_one self I) p \<in> ?S" by blast
    with fin have "Min ?S \<le> Ball_do_calc_sdf (Ball_make_one self I) p" by (rule Min_le)
    with I have "Min ?S \<le> INF'" by linarith
    moreover from fin ne have "Min (insert INF' ?S) = min INF' (Min ?S)" by (rule Min_insert)
    ultimately show ?thesis using cap by simp
  qed
  moreover have "Ball_do_calc_sdf b p = sqrt (norm_sqr3 (sub3 (pos b) p)) - radius b"
    by (simp add: Ball_do_calc_sdf_def distance3_def length3_def)
  ultimately show ?thesis using cap by simp
qed

theorem calc_sdf_capped_minimum_witness:
  "(\<exists>I<length (pos_field two_balls). Ball_do_calc_sdf (Ball_make_one two_balls I) (0, 0, 0) \<le> 1000)
   \<and> calc_sdf 1000 two_balls (0, 0, 0) =
       Min ((\<lambda>I. Ball_do_calc_sdf (Ball_make_one two_balls I) (0, 0, 0)) ` {..<length (pos_field two_balls)})
   \<and> calc_sdf 1000 two_balls (0, 0, 0) = 4"
proof -
  have s0: "Ball_do_calc_sdf (Ball_make_one two_balls 0) (0, 0, 0) = 4"
    by (simp add: two_balls_def Ball_make_one_def Ball_do_calc_sdf_def vec_defs)
  have h: "\<exists>I<length (pos_field two_balls). Ball_do_calc_sdf (Ball_make_one two_balls I) (0, 0, 0) \<le> 1000"
    by (rule exI [of _ 0]) (simp add: s0, simp add: two_balls_def)
  have v: "calc_sdf 1000 two_balls (0, 0, 0) = 4"
    by (simp add: calc_sdf_def indices_def two_balls_def Ball_make_one_def Ball_do_calc_sdf_def vec_defs)
  have "(\<exists>I<length (pos_field two_balls).
            Ball_do_calc_sdf (Ball_make_one two_balls I) (0, 0, 0) \<le> 1000) \<longrightarrow>
        calc_sdf 1000 two_balls (0, 0, 0) =
          Min ((\<lambda>I. Ball_do_calc_sdf (Ball_make_one two_balls I) (0, 0, 0))
                 ` {..<length (pos_field two_balls)})"
    using calc_sdf_capped_minimum [of 1000 two_balls "(0, 0, 0)"]
    by (rule conjunct1 [OF conjunct2])
  with h v show ?thesis by blast
qed

text \<open>
  C2: for a single ball and any ray, \<^verbatim>\<open>do_intersect\<close> returns the distance \<^verbatim>\<open>INF\<close>
  whenever the discriminant \<open>det = b\<^sup>2 - |op|\<^sup>2 + radius\<^sup>2\<close> is at most \<open>0\<close> (a tangent
  ray, \<open>det = 0\<close>, is a miss); otherwise it returns the near root \<open>b - sqrt det\<close> if that
  exceeds \<^verbatim>\<open>EPS\<close>, else the far root \<open>b + sqrt det\<close> if that exceeds \<^verbatim>\<open>EPS\<close>, else
  \<^verbatim>\<open>INF\<close>. The ray need not be of unit length for this.
\<close>

theorem Ball_do_intersect_distance:
  "fst (Ball_do_intersect EPS INF' self orig dir) =
     (let op = sub3 (pos self) orig;
          b = dot3 op dir;
          det = b\<^sup>2 - norm_sqr3 op + (radius self)\<^sup>2
      in if det \<le> 0 then INF'
         else if b - sqrt det > EPS then b - sqrt det
         else if b + sqrt det > EPS then b + sqrt det
         else INF')"
  by (simp add: Ball_do_intersect_def Let_def not_less)

lemma far_ball_root:
  "accepted_root (1 / 1000) (Ball_make_one far_ball 0) (0, 0, 0) (1, 0, 0) = Some 1999"
  by (simp add: accepted_root_def far_ball_def Ball_make_one_def vec_defs)

lemma far_ball_intersect:
  "intersect (1 / 1000) 1000 far_ball (0, 0, 0) (1, 0, 0) = (1000, vec3 0)"
  by (simp add: intersect_def indices_def intersect_step_def far_ball_def Ball_make_one_def
      Ball_do_intersect_def vec_defs)

text \<open>
  Whatever real values \<^verbatim>\<open>EPS\<close> and \<^verbatim>\<open>INF\<close> have, a unit ball far enough down the ray
  has an accepted root that is not below \<^verbatim>\<open>INF\<close>, and the batch answers \<^verbatim>\<open>INF\<close>.
\<close>

lemma intersect_cap_any_INF:
  fixes EPS INF' :: real
  defines "m \<equiv> max \<bar>INF'\<bar> \<bar>EPS\<bar>"
  shows "accepted_root EPS (Ball_make_one \<lparr>pos_field = [(m + 2, 0, 0)], radius_field = [1]\<rparr> 0)
           (0, 0, 0) (1, 0, 0) = Some (m + 1)"
    and "intersect EPS INF' \<lparr>pos_field = [(m + 2, 0, 0)], radius_field = [1]\<rparr> (0, 0, 0) (1, 0, 0)
           = (INF', vec3 0)"
proof -
  have "EPS < m + 1" "\<not> m + 1 < INF'" unfolding m_def by linarith+
  then show "accepted_root EPS (Ball_make_one \<lparr>pos_field = [(m + 2, 0, 0)], radius_field = [1]\<rparr> 0)
           (0, 0, 0) (1, 0, 0) = Some (m + 1)"
    and "intersect EPS INF' \<lparr>pos_field = [(m + 2, 0, 0)], radius_field = [1]\<rparr> (0, 0, 0) (1, 0, 0)
           = (INF', vec3 0)"
    by (simp_all add: accepted_root_def intersect_def indices_def intersect_step_def
        Ball_do_intersect_def Ball_make_one_def vec_defs Let_def power2_eq_square)
qed

text \<open>
  C3, as stated, fails: with \<^verbatim>\<open>EPS = 0.001\<close>, \<^verbatim>\<open>INF = 1000\<close> and a single unit ball 2000
  units down the ray, the instance has a positive discriminant and the accepted root 1999,
  yet the batch keeps a root only if it is strictly below \<^verbatim>\<open>INF\<close> and returns
  \<^verbatim>\<open>INF\<close> with the zero normal.
\<close>

theorem intersect_far_ball_counterexample:
  "accepted_root (1 / 1000) (Ball_make_one far_ball 0) (0, 0, 0) (1, 0, 0) = Some 1999
   \<and> intersect (1 / 1000) 1000 far_ball (0, 0, 0) (1, 0, 0) = (1000, vec3 0)"
  using far_ball_root far_ball_intersect by (rule conjI)

lemma root_of_hit:
  assumes "fst (Ball_do_intersect EPS INF' b orig dir) < INF'"
  shows "accepted_root EPS b orig dir = Some (fst (Ball_do_intersect EPS INF' b orig dir))"
  using assms by (simp add: do_intersect_fst split: option.splits)

lemma hit_of_root:
  assumes "accepted_root EPS b orig dir = Some r"
  shows "fst (Ball_do_intersect EPS INF' b orig dir) = r"
  using assms by (simp add: do_intersect_fst)

lemma miss_of_no_root:
  assumes "accepted_root EPS b orig dir = None"
  shows "fst (Ball_do_intersect EPS INF' b orig dir) = INF'"
  using assms by (simp add: do_intersect_fst)

text \<open>
  C3, amended: for every batch of balls and every ray, if no instance has an accepted root
  below \<^verbatim>\<open>INF\<close>, the batch \<^verbatim>\<open>intersect\<close> returns \<^verbatim>\<open>INF\<close> (with the zero normal); if
  some instance has an accepted root below \<^verbatim>\<open>INF\<close>, it returns the sample of an instance
  \<open>J\<close> whose accepted root is the returned distance, is below \<^verbatim>\<open>INF\<close> and is minimal
  among all accepted roots, and \<open>J\<close> is the first instance in iteration order with that
  root.
\<close>

theorem intersect_minimal_root:
  fixes self :: Ball_batch and EPS INF' :: real and orig dir :: vec3
  defines "n \<equiv> length (pos_field self)"
    and "acc \<equiv> \<lambda>I. accepted_root EPS (Ball_make_one self I) orig dir"
    and "res \<equiv> intersect EPS INF' self orig dir"
  shows "((\<forall>I<n. \<forall>r. acc I = Some r \<longrightarrow> INF' \<le> r) \<longrightarrow> res = (INF', vec3 0))
    \<and> ((\<exists>I<n. \<exists>r. acc I = Some r \<and> r < INF') \<longrightarrow>
         (\<exists>J<n. acc J = Some (fst res) \<and> fst res < INF'
            \<and> res = Ball_do_intersect EPS INF' (Ball_make_one self J) orig dir
            \<and> (\<forall>K<n. \<forall>r. acc K = Some r \<longrightarrow> fst res \<le> r)
            \<and> (\<forall>K<J. acc K \<noteq> Some (fst res))))"
proof -
  let ?f = "\<lambda>I. Ball_do_intersect EPS INF' (Ball_make_one self I) orig dir"
  from intersect_cases [of EPS INF' self orig dir] consider
      (miss) "res = (INF', vec3 0)" "\<forall>I<n. \<not> fst (?f I) < INF'"
    | (hit) J where "J < n" "res = ?f J" "fst (?f J) < INF'" "\<forall>K<n. fst (?f J) \<le> fst (?f K)"
        "\<forall>K<J. fst (?f J) < fst (?f K)"
    unfolding n_def res_def by blast
  then show ?thesis
  proof cases
    case miss
    have "\<not> (\<exists>I<n. \<exists>r. acc I = Some r \<and> r < INF')"
    proof
      assume "\<exists>I<n. \<exists>r. acc I = Some r \<and> r < INF'"
      then obtain I r where "I < n" "acc I = Some r" "r < INF'" by blast
      then have "fst (?f I) < INF'" by (simp add: acc_def hit_of_root)
      with miss \<open>I < n\<close> show False by blast
    qed
    with miss show ?thesis by blast
  next
    case hit
    have rJ: "acc J = Some (fst res)"
      using hit by (simp add: acc_def root_of_hit)
    have low: "\<forall>K<n. \<forall>r. acc K = Some r \<longrightarrow> fst res \<le> r"
    proof (intro allI impI)
      fix K r assume "K < n" "acc K = Some r"
      then have "fst (?f K) = r" by (simp add: acc_def hit_of_root)
      with hit \<open>K < n\<close> show "fst res \<le> r" by auto
    qed
    have first: "\<forall>K<J. acc K \<noteq> Some (fst res)"
    proof (intro allI impI notI)
      fix K assume "K < J" "acc K = Some (fst res)"
      then have "fst (?f K) = fst res" by (simp add: acc_def hit_of_root)
      with hit \<open>K < J\<close> show False by auto
    qed
    have "\<not> (\<forall>I<n. \<forall>r. acc I = Some r \<longrightarrow> INF' \<le> r)"
      using rJ hit by auto
    moreover have "\<exists>J<n. acc J = Some (fst res) \<and> fst res < INF'
            \<and> res = ?f J
            \<and> (\<forall>K<n. \<forall>r. acc K = Some r \<longrightarrow> fst res \<le> r)
            \<and> (\<forall>K<J. acc K \<noteq> Some (fst res))"
      using hit rJ low first by auto
    ultimately show ?thesis by blast
  qed
qed

lemma two_balls_roots:
  "accepted_root (1 / 1000) (Ball_make_one two_balls 0) (0, 0, 0) (0, 0, 1) = Some 4"
  "accepted_root (1 / 1000) (Ball_make_one two_balls (Suc 0)) (0, 0, 0) (0, 0, 1) = Some 11"
  by (simp_all add: accepted_root_def two_balls_def Ball_make_one_def vec_defs)

lemma two_balls_intersect:
  "intersect (1 / 1000) 1000 two_balls (0, 0, 0) (0, 0, 1) = (4, 0, 0, - 1)"
  by (simp add: intersect_def indices_def intersect_step_def two_balls_def Ball_make_one_def
      Ball_do_intersect_def vec_defs)


lemma two_balls_away_roots:
  "accepted_root (1 / 1000) (Ball_make_one two_balls 0) (0, 0, 0) (0, 0, - 1) = None"
  "accepted_root (1 / 1000) (Ball_make_one two_balls (Suc 0)) (0, 0, 0) (0, 0, - 1) = None"
  by (simp_all add: accepted_root_def two_balls_def Ball_make_one_def vec_defs)


theorem intersect_minimal_root_witness:
  "(\<exists>I<length (pos_field two_balls). \<exists>r.
       accepted_root (1 / 1000) (Ball_make_one two_balls I) (0, 0, 0) (0, 0, 1) = Some r \<and> r < 1000)
   \<and> (\<exists>J<length (pos_field two_balls).
         accepted_root (1 / 1000) (Ball_make_one two_balls J) (0, 0, 0) (0, 0, 1)
           = Some (fst (intersect (1 / 1000) 1000 two_balls (0, 0, 0) (0, 0, 1)))
         \<and> intersect (1 / 1000) 1000 two_balls (0, 0, 0) (0, 0, 1)
           = Ball_do_intersect (1 / 1000) 1000 (Ball_make_one two_balls J) (0, 0, 0) (0, 0, 1))
   \<and> intersect (1 / 1000) 1000 two_balls (0, 0, 0) (0, 0, 1) = (4, 0, 0, - 1)"
proof -
  have h: "\<exists>I<length (pos_field two_balls). \<exists>r.
       accepted_root (1 / 1000) (Ball_make_one two_balls I) (0, 0, 0) (0, 0, 1) = Some r \<and> r < 1000"
    by (rule exI [of _ 0]) (simp add: two_balls_roots, simp add: two_balls_def)
  from intersect_minimal_root [of two_balls "1 / 1000" "(0, 0, 0)" "(0, 0, 1)" 1000] h
  have "\<exists>J<length (pos_field two_balls).
         accepted_root (1 / 1000) (Ball_make_one two_balls J) (0, 0, 0) (0, 0, 1)
           = Some (fst (intersect (1 / 1000) 1000 two_balls (0, 0, 0) (0, 0, 1)))
         \<and> intersect (1 / 1000) 1000 two_balls (0, 0, 0) (0, 0, 1)
           = Ball_do_intersect (1 / 1000) 1000 (Ball_make_one two_balls J) (0, 0, 0) (0, 0, 1)"
    by blast
  with h two_balls_intersect show ?thesis by blast
qed





text \<open>
  C10: for every batch of balls and every ray for which no instance yields an accepted
  root, the batch \<^verbatim>\<open>intersect\<close> returns the pair of \<^verbatim>\<open>INF\<close> and the zero vector.
\<close>

theorem intersect_total_miss:
  assumes "\<forall>I<length (pos_field self). accepted_root EPS (Ball_make_one self I) orig dir = None"
  shows "intersect EPS INF' self orig dir = (INF', vec3 0)"
proof -
  let ?f = "\<lambda>I. Ball_do_intersect EPS INF' (Ball_make_one self I) orig dir"
  from intersect_cases [of EPS INF' self orig dir] consider
      (miss) "intersect EPS INF' self orig dir = (INF', vec3 0)"
    | (hit) J where "J < length (pos_field self)" "fst (?f J) < INF'"
    by blast
  then show ?thesis
  proof cases
    case miss
    then show ?thesis .
  next
    case hit
    with assms have "fst (?f J) = INF'" by (simp add: miss_of_no_root)
    with hit show ?thesis by simp
  qed
qed

theorem intersect_total_miss_witness:
  "accepted_root (1 / 1000) (Ball_make_one two_balls 0) (0, 0, 0) (0, 0, - 1) = None
   \<and> accepted_root (1 / 1000) (Ball_make_one two_balls (Suc 0)) (0, 0, 0) (0, 0, - 1) = None
   \<and> intersect (1 / 1000) 1000 two_balls (0, 0, 0) (0, 0, - 1) = (1000, vec3 0)"
proof -
  have h: "\<forall>I<length (pos_field two_balls).
      accepted_root (1 / 1000) (Ball_make_one two_balls I) (0, 0, 0) (0, 0, - 1) = None"
    using two_balls_away_roots by (auto simp: two_balls_def less_Suc_eq)
  from intersect_total_miss [OF h, of 1000] two_balls_away_roots show ?thesis by simp
qed

section \<open>Properties of the screen-space objects\<close>

lemma fold_pixel_update:
  fixes g :: "ivec2 \<Rightarrow> vec3 \<Rightarrow> vec3" and s :: scene
  assumes "distinct xs"
  shows "fold (\<lambda>X s. s\<lparr>img := (img s)(X := g X (img s X))\<rparr>) xs s =
           s\<lparr>img := (\<lambda>Y. if Y \<in> set xs then g Y (img s Y) else img s Y)\<rparr>"
  using assms
proof (induction xs arbitrary: s)
  case Nil
  show ?case by simp
next
  case (Cons x xs)
  let ?f = "\<lambda>X s. s\<lparr>img := (img s)(X := g X (img s X))\<rparr>"
  let ?s = "?f x s"
  from Cons.prems have x: "x \<notin> set xs" and d: "distinct xs" by simp_all
  have eq: "(\<lambda>Y. if Y \<in> set xs then g Y (img ?s Y) else img ?s Y)
        = (\<lambda>Y. if Y \<in> set (x # xs) then g Y (img s Y) else img s Y)"
  proof
    fix Y
    show "(if Y \<in> set xs then g Y (img ?s Y) else img ?s Y)
        = (if Y \<in> set (x # xs) then g Y (img s Y) else img s Y)"
      using x by (cases "Y = x") auto
  qed
  have "fold ?f (x # xs) s = fold ?f xs ?s" by simp
  also have "\<dots> = ?s\<lparr>img := (\<lambda>Y. if Y \<in> set xs then g Y (img ?s Y) else img ?s Y)\<rparr>"
    by (rule Cons.IH [OF d])
  also have "\<dots> = ?s\<lparr>img := (\<lambda>Y. if Y \<in> set (x # xs) then g Y (img s Y) else img s Y)\<rparr>"
    by (simp only: eq)
  also have "\<dots> = s\<lparr>img := (\<lambda>Y. if Y \<in> set (x # xs) then g Y (img s Y) else img s Y)\<rparr>"
    by simp
  finally show ?case .
qed

lemma set_ndrange2:
  "set (ndrange2 xr yr) = {(x, y). fst xr \<le> x \<and> x < snd xr \<and> fst yr \<le> y \<and> y < snd yr}"
  by (auto simp: ndrange2_def)

lemma distinct_rows:
  "distinct xs \<Longrightarrow> distinct ys \<Longrightarrow> distinct (concat (map (\<lambda>x. map (\<lambda>y. (x, y)) ys) xs))"
  by (induction xs) (auto simp: distinct_map inj_on_def)

lemma distinct_ndrange2: "distinct (ndrange2 xr yr)"
  by (simp add: ndrange2_def distinct_rows)

lemma Line_pixel_write:
  "Line_pixel A B W X s = s\<lparr>img := (img s)(X := Line_write A B W X (img s X))\<rparr>"
  by (simp add: Line_pixel_def Line_write_def Let_def)

lemma Line_do_render_result:
  "Line_do_render self s = s\<lparr>img := (\<lambda>X. Line_result self s X (img s X))\<rparr>"
proof -
  have "Line_pixel A B W = (\<lambda>X s. s\<lparr>img := (img s)(X := Line_write A B W X (img s X))\<rparr>)"
    for A B W by (intro ext) (rule Line_pixel_write)
  then show ?thesis
    by (simp add: Line_do_render_def Line_result_def Let_def fold_pixel_update distinct_ndrange2)
qed

lemma Line_result_img: "Line_result self (s\<lparr>img := im\<rparr>) = Line_result self s"
  by (simp add: Line_result_def fun_eq_iff)

lemma Line_udf_nonneg: "0 \<le> Line_udf A B X"
  by (simp add: Line_udf_def Let_def norm_sqr2_def) (cases A; cases B; cases X; simp)

lemma min3_left_commute: "min3 (min3 v a) b = min3 (min3 v b) a"
  by (cases v; cases a; cases b) (simp add: min.commute min.left_commute min.assoc)

lemma Line_write_commute:
  "Line_write A B W X (Line_write A' B' W' X' v) = Line_write A' B' W' X' (Line_write A B W X v)"
  using Line_udf_nonneg [of A B "real2 X"] Line_udf_nonneg [of A' B' "real2 X'"]
  by (simp add: Line_write_def Let_def min3_left_commute not_less)

lemma Line_result_commute:
  "Line_result l1 s X (Line_result l2 s X v) = Line_result l2 s X (Line_result l1 s X v)"
  by (simp add: Line_result_def Let_def Line_write_commute)

text \<open>
  C6: for every pixel \<open>X\<close> scanned by \<^verbatim>\<open>Line.do_render\<close>, with half-width \<open>W = 1\<close>: if
  \<open>udf < 0\<close> the pixel is overwritten with white \<open>vec3(1.0)\<close>; else if \<open>udf < W\<^sup>2\<close> it becomes
  the per-channel minimum of its old value and \<open>vec3(t)\<close> with
  \<open>t = smoothstep(udf, 0, W\<^sup>2)\<close>; else it is left unchanged. A pixel outside the scanned box
  is left unchanged as well.
\<close>

theorem Line_do_render_pixel:
  "img (Line_do_render self scene) X =
     (let W = 1;
          A = uncook_coor scene (untrans_pos (camera scene) (Line_a self));
          B = uncook_coor scene (untrans_pos (camera scene) (Line_b self));
          M = floor2 (sub2s (min2 A B) W);
          N = ceil2 (add2s (max2 A B) W);
          udf = Line_udf A B (real2 X)
      in if X \<in> set (ndrange2 (fst M, fst N) (snd M, snd N)) then
           (if udf < 0 then vec3 1
            else if udf < W\<^sup>2 then min3 (img scene X) (vec3 (smoothstep udf 0 (W\<^sup>2)))
            else img scene X)
         else img scene X)"
  by (simp add: Line_do_render_result Line_result_def Line_write_def Let_def)

lemma Line_render_two:
  "Line_render \<lparr>Line_a_field = [a1, a2], Line_b_field = [b1, b2]\<rparr> scene =
     Line_do_render \<lparr>Line_a = a2, Line_b = b2\<rparr> (Line_do_render \<lparr>Line_a = a1, Line_b = b1\<rparr> scene)"
  by (simp add: Line_render_def Line_make_one_def)

text \<open>
  C9: rendering two line instances in either order yields the same scene, hence the same
  final image, from any starting image; the lines may overlap. The same holds for a batch
  of two lines and the batch with its instances swapped.
\<close>

theorem Line_do_render_commute:
  "Line_do_render l2 (Line_do_render l1 scene) = Line_do_render l1 (Line_do_render l2 scene)
   \<and> Line_render \<lparr>Line_a_field = [a1, a2], Line_b_field = [b1, b2]\<rparr> scene
       = Line_render \<lparr>Line_a_field = [a2, a1], Line_b_field = [b2, b1]\<rparr> scene"
proof -
  have swap: "Line_do_render l (Line_do_render l' s) = Line_do_render l' (Line_do_render l s)"
    for l l' s
  proof -
    have "(\<lambda>X. Line_result l s X (Line_result l' s X (img s X)))
        = (\<lambda>X. Line_result l' s X (Line_result l s X (img s X)))"
      by (intro ext) (rule Line_result_commute)
    then show ?thesis
      by (simp add: Line_do_render_result Line_result_img)
  qed
  show ?thesis
    unfolding Line_render_two using swap by (intro conjI) blast+
qed

lemma Triangle_udf_edges:
  "Triangle_udf A B C X = max (max (edge_fn A B X) (edge_fn B C X)) (edge_fn C A X)"
  by (simp add: Triangle_udf_def edge_fn_def Let_def)

lemma Triangle_pixel_write:
  "Triangle_pixel A B C color W X s =
     s\<lparr>img := (img s)(X := Triangle_write A B C color W X (img s X))\<rparr>"
  by (simp add: Triangle_pixel_def Triangle_write_def Let_def)

lemma Triangle_do_render_result:
  "Triangle_do_render self s = s\<lparr>img := (\<lambda>X. Triangle_result self s X (img s X))\<rparr>"
proof -
  have "Triangle_pixel A B C color W =
      (\<lambda>X s. s\<lparr>img := (img s)(X := Triangle_write A B C color W X (img s X))\<rparr>)"
    for A B C color W by (intro ext) (rule Triangle_pixel_write)
  then show ?thesis
    by (simp add: Triangle_do_render_def Triangle_result_def Let_def fold_pixel_update
        distinct_ndrange2)
qed


lemma Triangle_fills_img: "Triangle_fills self (s\<lparr>img := im\<rparr>) = Triangle_fills self s"
  by (simp add: Triangle_fills_def fun_eq_iff)


lemma edges_example:
  "edge_fn (0, 0) (10, 0) (2, 2) = - 2"
  "edge_fn (10, 0) (0, 10) (2, 2) = - (60 / sqrt 200)"
  "edge_fn (0, 10) (0, 0) (2, 2) = - 2"
  by (simp_all add: edge_fn_def length2_def norm_sqr2_def Let_def field_simps)

lemma udf_example_inside: "Triangle_udf (0, 0) (10, 0) (0, 10) (2, 2) < 0"
  by (simp add: Triangle_udf_edges edges_example)

lemma box_example:
  "floor2 (sub2s (min2 (min2 (0, 0) (10, 0)) (0, 10)) 0.4) = (- 1, - 1)"
  "ceil2 (add2s (max2 (max2 (0, 0) (10, 0)) (0, 10)) 0.4) = (11, 11)"
  by simp_all

lemma Triangle_result_example:
  assumes "uncook_coor s (untrans_pos (camera s) (Triangle_a T)) = (0, 0)"
    and "uncook_coor s (untrans_pos (camera s) (Triangle_b T)) = (10, 0)"
    and "uncook_coor s (untrans_pos (camera s) (Triangle_c T)) = (0, 10)"
  shows "Triangle_result T s X v =
     (if X \<in> set (ndrange2 (- 1, 11) (- 1, 11))
      then Triangle_write (0, 0) (10, 0) (0, 10)
             (Triangle_color s (untrans_pos (camera s) (Triangle_a T))
                (untrans_pos (camera s) (Triangle_b T)) (untrans_pos (camera s) (Triangle_c T)))
             0.4 X v
      else v)"
  unfolding Triangle_result_def Let_def assms box_example by simp

lemma Triangle_write_inside:
  "Triangle_write (0, 0) (10, 0) (0, 10) color W (2, 2) v = color"
  using udf_example_inside by (simp add: Triangle_write_def)



lemma flat_scene_coords:
  "uncook_coor flat_scene (untrans_pos (camera flat_scene) (Triangle_a tri_near)) = (0, 0)"
  "uncook_coor flat_scene (untrans_pos (camera flat_scene) (Triangle_b tri_near)) = (10, 0)"
  "uncook_coor flat_scene (untrans_pos (camera flat_scene) (Triangle_c tri_near)) = (0, 10)"
  "uncook_coor flat_scene (untrans_pos (camera flat_scene) (Triangle_a tri_far)) = (0, 0)"
  "uncook_coor flat_scene (untrans_pos (camera flat_scene) (Triangle_b tri_far)) = (10, 0)"
  "uncook_coor flat_scene (untrans_pos (camera flat_scene) (Triangle_c tri_far)) = (0, 10)"
  by (simp_all add: flat_scene_def tri_near_def tri_far_def)

lemma flat_scene_colors:
  "Triangle_color flat_scene (untrans_pos (camera flat_scene) (Triangle_a tri_near))
     (untrans_pos (camera flat_scene) (Triangle_b tri_near))
     (untrans_pos (camera flat_scene) (Triangle_c tri_near)) = (1, 0, 0)"
  "Triangle_color flat_scene (untrans_pos (camera flat_scene) (Triangle_a tri_far))
     (untrans_pos (camera flat_scene) (Triangle_b tri_far))
     (untrans_pos (camera flat_scene) (Triangle_c tri_far)) = (1, 1, 0)"
  by (simp_all add: flat_scene_def tri_near_def tri_far_def Triangle_color_def Let_def)

lemma in_box_example:
  "(2, 2) \<in> set (ndrange2 (- 1, 11) (- 1, 11))"
  "(5, 5) \<in> set (ndrange2 (- 1, 11) (- 1, 11))"
  "(20, 20) \<notin> set (ndrange2 (- 1, 11) (- 1, 11))"
  by (simp_all add: set_ndrange2)


text \<open>
  C5: for every pixel \<open>X\<close> scanned by \<^verbatim>\<open>Triangle.do_render\<close>, with \<open>udf\<close> the maximum of
  the three normalised signed edge functions and \<open>W = 0.4\<close>: if \<open>udf < 0\<close> the pixel is
  overwritten with the flat triangle colour; else if \<open>udf < W\<close> it becomes the per-channel
  maximum of its old value and \<open>smoothstep(udf, W, 0) * color\<close>; else it is not written, and
  neither is a pixel outside the scanned box. For the screen coordinates \<open>A = (0, 0)\<close>,
  \<open>B = (10, 0)\<close>, \<open>C = (0, 10)\<close> the three edge functions are negative at \<open>(2, 2)\<close>, which
  receives the flat colour, and the pixel \<open>(20, 20)\<close> is not written.
\<close>

theorem Triangle_do_render_pixel:
  fixes self :: Triangle and scene :: scene and X :: ivec2
  defines "a \<equiv> untrans_pos (camera scene) (Triangle_a self)"
    and "b \<equiv> untrans_pos (camera scene) (Triangle_b self)"
    and "c \<equiv> untrans_pos (camera scene) (Triangle_c self)"
  defines "A \<equiv> uncook_coor scene a"
    and "B \<equiv> uncook_coor scene b"
    and "C \<equiv> uncook_coor scene c"
    and "color \<equiv> Triangle_color scene a b c"
  defines "M \<equiv> floor2 (sub2s (min2 (min2 A B) C) 0.4)"
    and "N \<equiv> ceil2 (add2s (max2 (max2 A B) C) 0.4)"
    and "udf \<equiv> Triangle_udf A B C (real2 X)"
  shows "img (Triangle_do_render self scene) X =
           (if X \<in> set (ndrange2 (fst M, fst N) (snd M, snd N)) then
              (if udf < 0 then color
               else if udf < 0.4 then max3 (img scene X) (scale3 color (smoothstep udf 0.4 0))
               else img scene X)
            else img scene X)
    \<and> udf = max (max (edge_fn A B (real2 X)) (edge_fn B C (real2 X))) (edge_fn C A (real2 X))
    \<and> (A = (0, 0) \<and> B = (10, 0) \<and> C = (0, 10) \<longrightarrow>
          edge_fn A B (2, 2) < 0 \<and> edge_fn B C (2, 2) < 0 \<and> edge_fn C A (2, 2) < 0
          \<and> img (Triangle_do_render self scene) (2, 2) = color
          \<and> img (Triangle_do_render self scene) (20, 20) = img scene (20, 20))"
proof -
  have general: "img (Triangle_do_render self scene) X =
           (if X \<in> set (ndrange2 (fst M, fst N) (snd M, snd N)) then
              (if udf < 0 then color
               else if udf < 0.4 then max3 (img scene X) (scale3 color (smoothstep udf 0.4 0))
               else img scene X)
            else img scene X)"
    by (simp add: Triangle_do_render_result Triangle_result_def Triangle_write_def Let_def
        a_def b_def c_def A_def B_def C_def color_def M_def N_def udf_def)
  have edges: "udf = max (max (edge_fn A B (real2 X)) (edge_fn B C (real2 X))) (edge_fn C A (real2 X))"
    unfolding udf_def by (rule Triangle_udf_edges)
  have example: "edge_fn A B (2, 2) < 0 \<and> edge_fn B C (2, 2) < 0 \<and> edge_fn C A (2, 2) < 0
          \<and> img (Triangle_do_render self scene) (2, 2) = color
          \<and> img (Triangle_do_render self scene) (20, 20) = img scene (20, 20)"
    if "A = (0, 0) \<and> B = (10, 0) \<and> C = (0, 10)"
  proof -
    from that have coords:
      "uncook_coor scene (untrans_pos (camera scene) (Triangle_a self)) = (0, 0)"
      "uncook_coor scene (untrans_pos (camera scene) (Triangle_b self)) = (10, 0)"
      "uncook_coor scene (untrans_pos (camera scene) (Triangle_c self)) = (0, 10)"
      by (simp_all add: A_def B_def C_def a_def b_def c_def)
    have "img (Triangle_do_render self scene) (2, 2) = color"
      by (simp add: Triangle_do_render_result Triangle_result_example [OF coords] in_box_example
          Triangle_write_inside color_def a_def b_def c_def del: real2.simps)
    moreover have "img (Triangle_do_render self scene) (20, 20) = img scene (20, 20)"
      by (simp add: Triangle_do_render_result Triangle_result_example [OF coords] in_box_example)
    moreover have "edge_fn A B (2, 2) < 0 \<and> edge_fn B C (2, 2) < 0 \<and> edge_fn C A (2, 2) < 0"
      using that by (simp add: edges_example)
    ultimately show ?thesis by blast
  qed
  from general edges example show ?thesis by blast
qed

theorem Triangle_do_render_pixel_witness:
  "(uncook_coor flat_scene (untrans_pos (camera flat_scene) (Triangle_a tri_near)) = (0, 0)
    \<and> uncook_coor flat_scene (untrans_pos (camera flat_scene) (Triangle_b tri_near)) = (10, 0)
    \<and> uncook_coor flat_scene (untrans_pos (camera flat_scene) (Triangle_c tri_near)) = (0, 10))
   \<and> img (Triangle_do_render tri_near flat_scene) (2, 2) = (1, 0, 0)
   \<and> img (Triangle_do_render tri_near flat_scene) (20, 20) = (0, 0, 0)"
proof -
  have h: "uncook_coor flat_scene (untrans_pos (camera flat_scene) (Triangle_a tri_near)) = (0, 0)
    \<and> uncook_coor flat_scene (untrans_pos (camera flat_scene) (Triangle_b tri_near)) = (10, 0)
    \<and> uncook_coor flat_scene (untrans_pos (camera flat_scene) (Triangle_c tri_near)) = (0, 10)"
    by (simp add: flat_scene_coords)
  from Triangle_do_render_pixel [of tri_near flat_scene] h
  have "img (Triangle_do_render tri_near flat_scene) (2, 2) =
          Triangle_color flat_scene (untrans_pos (camera flat_scene) (Triangle_a tri_near))
            (untrans_pos (camera flat_scene) (Triangle_b tri_near))
            (untrans_pos (camera flat_scene) (Triangle_c tri_near))
        \<and> img (Triangle_do_render tri_near flat_scene) (20, 20) = img flat_scene (20, 20)"
    by blast
  moreover have "img flat_scene (20, 20) = (0, 0, 0)" by (simp add: flat_scene_def)
  ultimately show ?thesis using h by (simp add: flat_scene_colors)
qed






end
